theory Spec2Isabelle
  imports Main "HOL-Library.AList"
begin

section \<open>The host framework's interface\<close>

text \<open>
  The filters of \<^verbatim>\<open>filtrate/filters.py\<close> extend the admin list filter of the host web
  framework. The framework itself is not part of the repository, so only the interface
  the filters call is described here: exceptions as values, the query-string mapping of
  a request, the query builder, and the static-asset objects.
\<close>

datatype error =
    NotImplementedError
  | AttributeError
  | TypeError
  | IndexError
  | ValueError
  | KeyError
  | Exception string

subsection \<open>The query string of a request\<close>

text \<open>
  \<^verbatim>\<open>request.GET\<close> is a multi-valued dictionary. It is modelled by the sequence of
  key/value pairs of the query string it was built from. \<^verbatim>\<open>keys()\<close> lists every key
  once, in the order of first appearance; \<^verbatim>\<open>GET[k]\<close> is the last value given for
  \<open>k\<close> and raises for a key that is not there; \<^verbatim>\<open>GET.get(k)\<close> is \<^verbatim>\<open>None\<close> instead.
\<close>

type_synonym querydict = "(string \<times> string) list"


definition QueryDict_getitem :: "querydict \<Rightarrow> string \<Rightarrow> error + string" where
  "QueryDict_getitem q k =
     (case filter (\<lambda>p. fst p = k) q of
        [] \<Rightarrow> Inl KeyError
      | p # ps \<Rightarrow> Inr (snd (last (p # ps))))"

definition QueryDict_get :: "querydict \<Rightarrow> string \<Rightarrow> string option" where
  "QueryDict_get q k = (case QueryDict_getitem q k of Inl e \<Rightarrow> None | Inr v \<Rightarrow> Some v)"

subsection \<open>Record queries\<close>

text \<open>
  A queryset is immutable: \<^verbatim>\<open>queryset.filter(**kwargs)\<close> and
  \<^verbatim>\<open>queryset.exclude(**kwargs)\<close> return a new queryset and leave the receiver as it
  was. The model records which call was made with which keyword arguments. A keyword
  value is either the text of a query parameter or a list of record identifiers.
\<close>

datatype lookup_value = Text string | Id_list "int list"

type_synonym kwargs = "(string \<times> lookup_value) list"

datatype 'r queryset =
    Records "'r list"
  | Filter_call "'r queryset" kwargs
  | Exclude_call "'r queryset" kwargs

text \<open>
  What the query builder makes of keyword arguments, over records whose fields hold
  integers. For the one keyword argument that maps a name to a list of identifiers:
  a name that ends in the lookup \<^verbatim>\<open>__in\<close> asks for membership of the field before it;
  a plain field name is an exact lookup, which takes one value and raises on a list.
  Every other set of keyword arguments is read by \<open>other\<close>, a parameter. A lookup
  that cannot be built raises when the call is made, whatever the records are.
\<close>

type_synonym row = "string \<Rightarrow> int option"

definition among :: "string \<Rightarrow> int list \<Rightarrow> row \<Rightarrow> bool" where
  "among field ids r = (case r field of None \<Rightarrow> False | Some v \<Rightarrow> v \<in> set ids)"

fun has_separator :: "string \<Rightarrow> bool" where
  "has_separator (a # b # cs) = ((a = CHR ''_'' \<and> b = CHR ''_'') \<or> has_separator (b # cs))"
| "has_separator cs = False"

definition in_lookup_field :: "string \<Rightarrow> string option" where
  "in_lookup_field name =
     (if 4 < length name \<and> drop (length name - 4) name = ''__in''
      then Some (take (length name - 4) name) else None)"

definition read_kwargs ::
  "(kwargs \<Rightarrow> error + (row \<Rightarrow> bool)) \<Rightarrow> kwargs \<Rightarrow> error + (row \<Rightarrow> bool)" where
  "read_kwargs other kw =
     (case kw of
        [(name, Id_list ids)] \<Rightarrow>
          (case in_lookup_field name of
             Some field \<Rightarrow> Inr (among field ids)
           | None \<Rightarrow> if has_separator name then other kw else Inl TypeError)
      | _ \<Rightarrow> other kw)"

text \<open>
  The records a queryset stands for: \<^verbatim>\<open>filter\<close> keeps the records the keyword
  arguments hold for, \<^verbatim>\<open>exclude\<close> keeps the others.
\<close>

fun rows :: "(kwargs \<Rightarrow> error + (row \<Rightarrow> bool)) \<Rightarrow> row queryset \<Rightarrow> error + row list" where
  "rows other (Records rs) = Inr rs"
| "rows other (Filter_call q kw) =
     (case rows other q of
        Inl e \<Rightarrow> Inl e
      | Inr rs \<Rightarrow>
          (case read_kwargs other kw of
             Inl e \<Rightarrow> Inl e
           | Inr holds \<Rightarrow> Inr (filter holds rs)))"
| "rows other (Exclude_call q kw) =
     (case rows other q of
        Inl e \<Rightarrow> Inl e
      | Inr rs \<Rightarrow>
          (case read_kwargs other kw of
             Inl e \<Rightarrow> Inl e
           | Inr holds \<Rightarrow> Inr (filter (\<lambda>r. \<not> holds r) rs)))"

subsection \<open>Static assets\<close>

text \<open>
  An inner \<^verbatim>\<open>class Media\<close> declares \<^verbatim>\<open>css\<close> (medium to paths) and \<^verbatim>\<open>js\<close> (paths);
  either attribute may be missing. The framework's \<^verbatim>\<open>Media\<close> objects are taken as a
  parameter: their constructor from a declaration, their addition, and the two merged
  views \<^verbatim>\<open>_css\<close> and \<^verbatim>\<open>_js\<close>.
\<close>

record media_class =
  css :: "(string \<times> string list) list option"
  js :: "string list option"

record 'm media_api =
  Media_new :: "media_class option \<Rightarrow> 'm"
  Media_add :: "'m \<Rightarrow> 'm \<Rightarrow> 'm"
  Media_css :: "'m \<Rightarrow> (string \<times> string list) list"
  Media_js :: "'m \<Rightarrow> string list"

text \<open>The admin object of a model; its class may or may not declare \<^verbatim>\<open>Media\<close>.\<close>

record model_admin =
  admin_Media :: "media_class option"

section \<open>FiltrateFilter\<close>

text \<open>
  A filter instance. \<open>used_parameters\<close> is the framework's store behind
  \<^verbatim>\<open>self.value()\<close>: the base class initialiser moves the entry of \<open>parameter_name\<close>
  from \<^verbatim>\<open>params\<close> into it. \<open>request_GET\<close> is the request's query string as the
  sequence of its key/value pairs.
\<close>

record filtrate_filter =
  parameter_name :: string
  request_GET :: querydict
  used_parameters :: "string \<Rightarrow> string option"

definition "value" :: "'a filtrate_filter_scheme \<Rightarrow> string option" where
  "value self = used_parameters self (parameter_name self)"

definition FiltrateFilter_Media :: media_class where
  "FiltrateFilter_Media =
     \<lparr>css = Some [(''all'', [''filtrate/css/filtrate.css''])],
      js = Some [''filtrate/js/filtrate.js'']\<rparr>"

text \<open>
  \<^verbatim>\<open>_add_media\<close>: the media of the admin, of the base filter class and of the instance
  are added in this order, and each media type of the admin's \<^verbatim>\<open>Media\<close> class is
  overwritten with the merged view. \<^verbatim>\<open>model_admin.Media\<close> raises when the admin
  declares no \<^verbatim>\<open>Media\<close>.
\<close>

definition add_media ::
  "'m media_api \<Rightarrow> media_class \<Rightarrow> model_admin \<Rightarrow> error + model_admin" where
  "add_media api self_Media admin =
     (let media = Media_add api
                    (Media_add api (Media_new api (admin_Media admin))
                                   (Media_new api (Some FiltrateFilter_Media)))
                    (Media_new api (Some self_Media))
      in case admin_Media admin of
           None \<Rightarrow> Inl AttributeError
         | Some m \<Rightarrow>
             Inr (admin\<lparr>admin_Media :=
                    Some (m\<lparr>css := Some (Media_css api media),
                            js := Some (Media_js api media)\<rparr>)\<rparr>))"

text \<open>
  \<^verbatim>\<open>FiltrateFilter.__init__\<close>: the class attributes (\<open>self_Media\<close>, \<open>pname\<close>) and
  the constructor arguments. It returns the instance, or the exception raised, together
  with the admin as it is afterwards.
\<close>

definition FiltrateFilter_init ::
  "'m media_api \<Rightarrow> media_class \<Rightarrow> string \<Rightarrow> querydict \<Rightarrow>
   (string \<Rightarrow> string option) \<Rightarrow> model_admin \<Rightarrow> (error + filtrate_filter) \<times> model_admin" where
  "FiltrateFilter_init api self_Media pname request params admin =
     (case add_media api self_Media admin of
        Inl e \<Rightarrow> (Inl e, admin)
      | Inr admin' \<Rightarrow>
          (Inr \<lparr>parameter_name = pname,
                request_GET = request,
                used_parameters =
                  (case params pname of None \<Rightarrow> Map.empty | Some v \<Rightarrow> [pname \<mapsto> v])\<rparr>,
           admin'))"

text \<open>\<^verbatim>\<open>FiltrateFilter.get_content\<close>: a subclass has to supply it.\<close>

definition FiltrateFilter_get_content ::
  "'a filtrate_filter_scheme \<Rightarrow> querydict \<Rightarrow> error + string" where
  "FiltrateFilter_get_content self request = Inl NotImplementedError"

text \<open>\<^verbatim>\<open>FiltrateFilter.queryset\<close>.\<close>

definition FiltrateFilter_queryset ::
  "'a filtrate_filter_scheme \<Rightarrow> 'r queryset \<Rightarrow> error + 'r queryset" where
  "FiltrateFilter_queryset self queryset =
     (case value self of
        None \<Rightarrow> Inr queryset
      | Some v \<Rightarrow> Inr (Filter_call queryset [(parameter_name self, Text v)]))"


fun collect :: "(error + 'a) list \<Rightarrow> error + 'a list" where
  "collect [] = Inr []"
| "collect (x # xs) =
     (case x of
        Inl e \<Rightarrow> Inl e
      | Inr y \<Rightarrow> (case collect xs of Inl e \<Rightarrow> Inl e | Inr ys \<Rightarrow> Inr (y # ys)))"


section \<open>DateRangeFilter\<close>

text \<open>
  The class declares its own \<^verbatim>\<open>Media\<close>; which assets depends on the setting
  \<^verbatim>\<open>FILTRATE['include_jquery']\<close>, a parameter here. It overrides neither
  \<^verbatim>\<open>__init__\<close> nor \<^verbatim>\<open>queryset\<close>: both are those of \<^verbatim>\<open>FiltrateFilter\<close>.
\<close>

definition DateRangeFilter_Media :: "bool \<Rightarrow> media_class" where
  "DateRangeFilter_Media include_jquery =
     (if include_jquery then
        \<lparr>css = Some [(''all'',
                 [''//ajax.googleapis.com/ajax/libs/jqueryui/1.8.14/themes/flick/jquery-ui.css''])],
         js = Some [''//ajax.googleapis.com/ajax/libs/jqueryui/1.8.14/jquery-ui.min.js'',
                    ''//ajax.googleapis.com/ajax/libs/jqueryui/1.8.14/i18n/jquery-ui-i18n.min.js'',
                    ''filtrate/js/daterangefilter.js'']\<rparr>
      else \<lparr>css = None, js = Some [''filtrate/js/daterangefilter.js'']\<rparr>)"

text \<open>
  \<^verbatim>\<open>_get_form\<close>: the form's fields and its bound data, both dictionaries in insertion
  order. Every field is an optional text field; a display field has a label and the
  visible widget, the field of the same name without \<^verbatim>\<open>__alt\<close> is hidden.
\<close>

datatype widget = Input string | HiddenInput string

datatype form_field = CharField "string option" widget

record date_range_form =
  form_fields :: "(string \<times> form_field) list"
  form_data :: "(string \<times> string) list"

definition add_fields ::
  "(string \<times> form_field) list \<Rightarrow> string \<Rightarrow> string \<Rightarrow> (string \<times> form_field) list" where
  "add_fields fs name label =
     AList.update name (CharField None (HiddenInput ''filtrate_date_hidden''))
       (AList.update (name @ ''__alt'') (CharField (Some label) (Input ''filtrate_date'')) fs)"

definition add_data ::
  "(string \<times> string) list \<Rightarrow> string \<Rightarrow> querydict \<Rightarrow> (string \<times> string) list" where
  "add_data d name request =
     (case QueryDict_get request name of
        None \<Rightarrow> d
      | Some date \<Rightarrow> if date \<noteq> [] then AList.update (name @ ''__alt'') date d else d)"

definition get_form :: "'a filtrate_filter_scheme \<Rightarrow> string \<Rightarrow> date_range_form" where
  "get_form self field_name =
     (let from_name = parameter_name self @ ''__gte'';
          to_name = parameter_name self @ ''__lte''
      in \<lparr>form_fields = add_fields (add_fields [] from_name ''From'') to_name ''To'',
          form_data = add_data (add_data [] from_name (request_GET self)) to_name (request_GET self)\<rparr>)"

section \<open>TreeFilter\<close>

subsection \<open>Reading the selection\<close>

text \<open>
  \<^verbatim>\<open>str.split(',')\<close>: the pieces between the commas; the empty string has the one
  piece \<^verbatim>\<open>''\<close>.
\<close>

fun split_comma :: "string \<Rightarrow> string list" where
  "split_comma [] = [[]]"
| "split_comma (c # cs) =
     (if c = CHR '','' then [] # split_comma cs
      else (case split_comma cs of
              [] \<Rightarrow> [[c]]
            | p # ps \<Rightarrow> (c # p) # ps))"

text \<open>
  \<^verbatim>\<open>int(s)\<close>. A character is a code point below 256. White space on both sides is
  dropped (the six ASCII ones, U+0085 and U+00A0), one sign may come first, then decimal
  digits, where a single underscore may stand between two digits. Anything else raises
  \<^verbatim>\<open>ValueError\<close>, and so does a text of more digits than the interpreter's limit,
  which is 4300 unless it is configured otherwise.
\<close>

definition is_space :: "char \<Rightarrow> bool" where
  "is_space c =
     (c \<in> set [CHR '' '', CHR 0x09, CHR 0x0A, CHR 0x0B, CHR 0x0C, CHR 0x0D, CHR 0x85, CHR 0xA0])"

definition strip :: "string \<Rightarrow> string" where
  "strip s = rev (dropWhile is_space (rev (dropWhile is_space s)))"

definition digit_value :: "char \<Rightarrow> nat option" where
  "digit_value c =
     (if c = CHR ''0'' then Some 0 else if c = CHR ''1'' then Some 1
      else if c = CHR ''2'' then Some 2 else if c = CHR ''3'' then Some 3
      else if c = CHR ''4'' then Some 4 else if c = CHR ''5'' then Some 5
      else if c = CHR ''6'' then Some 6 else if c = CHR ''7'' then Some 7
      else if c = CHR ''8'' then Some 8 else if c = CHR ''9'' then Some 9
      else None)"

fun parse_digits :: "nat \<Rightarrow> bool \<Rightarrow> string \<Rightarrow> nat option" where
  "parse_digits acc after_digit [] = (if after_digit then Some acc else None)"
| "parse_digits acc after_digit (c # cs) =
     (case digit_value c of
        Some d \<Rightarrow> parse_digits (10 * acc + d) True cs
      | None \<Rightarrow>
          (if c = CHR ''_'' \<and> after_digit then parse_digits acc False cs else None))"

definition max_str_digits :: nat where
  "max_str_digits = 4300"

definition digits_to_nat :: "string \<Rightarrow> error + nat" where
  "digits_to_nat ds =
     (case parse_digits 0 False ds of
        None \<Rightarrow> Inl ValueError
      | Some n \<Rightarrow>
          if max_str_digits < length (filter (\<lambda>c. digit_value c \<noteq> None) ds)
          then Inl ValueError else Inr n)"

definition py_int :: "string \<Rightarrow> error + int" where
  "py_int s =
     (case strip s of
        [] \<Rightarrow> Inl ValueError
      | c # cs \<Rightarrow>
          (if c = CHR ''-'' then
             (case digits_to_nat cs of Inl e \<Rightarrow> Inl e | Inr n \<Rightarrow> Inr (- int n))
           else if c = CHR ''+'' then
             (case digits_to_nat cs of Inl e \<Rightarrow> Inl e | Inr n \<Rightarrow> Inr (int n))
           else
             (case digits_to_nat (c # cs) of Inl e \<Rightarrow> Inl e | Inr n \<Rightarrow> Inr (int n))))"

text \<open>\<^verbatim>\<open>list(map(int, pieces))\<close>: the first piece that is no integer raises.\<close>

fun map_int :: "string list \<Rightarrow> error + int list" where
  "map_int [] = Inr []"
| "map_int (p # ps) =
     (case py_int p of
        Inl e \<Rightarrow> Inl e
      | Inr n \<Rightarrow> (case map_int ps of Inl e \<Rightarrow> Inl e | Inr ns \<Rightarrow> Inr (n # ns)))"

subsection \<open>The filter\<close>

record tree_filter = filtrate_filter +
  query_mode :: int
  query_name :: "string option"
  selected_nodes :: "int list"

definition TreeFilter_Media :: media_class where
  "TreeFilter_Media = \<lparr>css = None, js = Some [''filtrate/js/filtertree.js'']\<rparr>"

definition INCLUDE :: int where "INCLUDE = 1"
definition EXCLUDE :: int where "EXCLUDE = 2"

text \<open>
  \<^verbatim>\<open>TreeFilter.__init__\<close>, with the class attributes \<open>qmode\<close> and \<open>qname\<close>. The
  admin's media are already overwritten when the selection is read.
\<close>

definition TreeFilter_init ::
  "'m media_api \<Rightarrow> media_class \<Rightarrow> string \<Rightarrow> int \<Rightarrow> string option \<Rightarrow>
   querydict \<Rightarrow> (string \<Rightarrow> string option) \<Rightarrow> model_admin \<Rightarrow>
   (error + tree_filter) \<times> model_admin" where
  "TreeFilter_init api self_Media pname qmode qname request params admin =
     (case FiltrateFilter_init api self_Media pname request params admin of
        (Inl e, admin') \<Rightarrow> (Inl e, admin')
      | (Inr base, admin') \<Rightarrow>
          (case (case value base of
                   Some v \<Rightarrow> map_int (split_comma v)
                 | None \<Rightarrow> Inr []) of
             Inl e \<Rightarrow> (Inl e, admin')
           | Inr ids \<Rightarrow>
               (Inr \<lparr>parameter_name = parameter_name base,
                     request_GET = request_GET base,
                     used_parameters = used_parameters base,
                     query_mode = qmode,
                     query_name = qname,
                     selected_nodes = ids\<rparr>,
                admin')))"

text \<open>\<^verbatim>\<open>TreeFilter.get_tree\<close>: a subclass has to supply it.\<close>

definition get_tree :: "'a tree_filter_scheme \<Rightarrow> error + 'b" where
  "get_tree self = Inl NotImplementedError"

text \<open>\<^verbatim>\<open>TreeFilter.queryset\<close>.\<close>

definition TreeFilter_queryset ::
  "'a tree_filter_scheme \<Rightarrow> 'r queryset \<Rightarrow> error + 'r queryset" where
  "TreeFilter_queryset self queryset =
     (if selected_nodes self = [] then Inr queryset
      else
        (let name = (case query_name self of
                       None \<Rightarrow> parameter_name self
                     | Some n \<Rightarrow> n);
             kwargs = [(name, Id_list (selected_nodes self))]
         in if query_mode self = INCLUDE then Inr (Filter_call queryset kwargs)
            else if query_mode self = EXCLUDE then Inr (Exclude_call queryset kwargs)
            else Inl (Exception ''Unknown query_mode given.'')))"

subsection \<open>Writing a selection\<close>

text \<open>
  The text of a well-formed selection: \<^verbatim>\<open>str(i)\<close> of every identifier (decimal, a
  minus sign for a negative one), joined by commas (\<^verbatim>\<open>','.join\<close>).
\<close>

definition digit_char :: "nat \<Rightarrow> char" where
  "digit_char d = ''0123456789'' ! d"

fun nat_digits :: "nat \<Rightarrow> string" where
  "nat_digits n =
     (if n < 10 then [digit_char n] else nat_digits (n div 10) @ [digit_char (n mod 10)])"

declare nat_digits.simps [simp del]

definition py_str_int :: "int \<Rightarrow> string" where
  "py_str_int i = (if i < 0 then CHR ''-'' # nat_digits (nat (- i)) else nat_digits (nat i))"

fun join_comma :: "string list \<Rightarrow> string" where
  "join_comma [] = []"
| "join_comma [p] = p"
| "join_comma (p # q # ps) = p @ CHR '','' # join_comma (q # ps)"

subsection \<open>Serialising the tree\<close>

text \<open>
  The values \<^verbatim>\<open>_tree_to_json\<close> walks over. \<open>Tuple\<close> is a value whose type is exactly
  the built-in tuple. \<open>Object\<close> is any other value (a model instance, a string, a list,
  an instance of a subclass of tuple): \<open>Object a pk items\<close> has the attribute
  \<^verbatim>\<open>pk\<close> when \<open>pk\<close> is given and can be iterated over when \<open>items\<close> is given;
  \<open>a\<close> stands for everything else about it. The framework's \<^verbatim>\<open>force_str\<close>, which
  may raise, is a parameter of the functions below.
\<close>

datatype 'a pyobj =
    Tuple "'a pyobj list"
  | Object 'a "int option" "'a pyobj list option"

text \<open>The structure handed to \<^verbatim>\<open>json.dumps\<close>: dictionaries keep the order of insertion.\<close>

datatype json =
    JNumber int
  | JBool bool
  | JString string
  | JArray "json list"
  | JObject "(string \<times> json) list"

text \<open>\<^verbatim>\<open>node[i]\<close> on a tuple, and \<^verbatim>\<open>for node in tree\<close>.\<close>

definition tuple_item :: "'a pyobj list \<Rightarrow> nat \<Rightarrow> error + 'a pyobj" where
  "tuple_item items i = (if i < length items then Inr (items ! i) else Inl IndexError)"

fun iterate :: "'a pyobj \<Rightarrow> error + 'a pyobj list" where
  "iterate (Tuple items) = Inr items"
| "iterate (Object a pk None) = Inl TypeError"
| "iterate (Object a pk (Some items)) = Inr items"

lemma tuple_item_size:
  "tuple_item items i = Inr x \<Longrightarrow> size x < Suc (size_list size items)"
  by (auto simp: tuple_item_def less_Suc_eq_le split: if_splits)
     (metis nth_mem size_list_estimation' order_refl)

lemma iterate_size:
  "iterate t = Inr nodes \<Longrightarrow> size_list size nodes < size t"
  by (cases t rule: iterate.cases) auto

text \<open>
  The inner \<^verbatim>\<open>parse_tree\<close>: \<open>parse_tree\<close> starts the loop over \<open>tree\<close>,
  \<open>parse_nodes\<close> is the loop and \<open>parse_node\<close> its body, which yields the entry
  appended to \<^verbatim>\<open>cur_tree\<close>. \<open>selected\<close> is \<^verbatim>\<open>self.selected_nodes\<close>.
\<close>

function parse_tree ::
    "('a pyobj \<Rightarrow> error + string) \<Rightarrow> int list \<Rightarrow> 'a pyobj \<Rightarrow> error + json list"
  and parse_nodes ::
    "('a pyobj \<Rightarrow> error + string) \<Rightarrow> int list \<Rightarrow> 'a pyobj list \<Rightarrow> error + json list"
  and parse_node ::
    "('a pyobj \<Rightarrow> error + string) \<Rightarrow> int list \<Rightarrow> 'a pyobj \<Rightarrow> error + json"
where
  "parse_tree force_str selected tree =
     (case iterate tree of
        Inl e \<Rightarrow> Inl e
      | Inr nodes \<Rightarrow> parse_nodes force_str selected nodes)"
| "parse_nodes force_str selected [] = Inr []"
| "parse_nodes force_str selected (node # rest) =
     (case parse_node force_str selected node of
        Inl e \<Rightarrow> Inl e
      | Inr entry \<Rightarrow>
          (case parse_nodes force_str selected rest of
             Inl e \<Rightarrow> Inl e
           | Inr entries \<Rightarrow> Inr (entry # entries)))"
| "parse_node force_str selected (Tuple items) =
     (case tuple_item items 0 of
        Inl e \<Rightarrow> Inl e
      | Inr label \<Rightarrow>
          (case force_str label of
             Inl e \<Rightarrow> Inl e
           | Inr title \<Rightarrow>
               (case tuple_item items 1 of
                  Inl e \<Rightarrow> Inl e
                | Inr children \<Rightarrow>
                    (case parse_tree force_str selected children of
                       Inl e \<Rightarrow> Inl e
                     | Inr new_tree \<Rightarrow>
                         Inr (JObject [(''data'', JString title),
                                       (''children'', JArray new_tree)])))))"
| "parse_node force_str selected (Object a pk items) =
     (case force_str (Object a pk items) of
        Inl e \<Rightarrow> Inl e
      | Inr title \<Rightarrow>
          (case pk of
             None \<Rightarrow> Inl AttributeError
           | Some k \<Rightarrow>
               Inr (JObject [(''attr'', JObject [(''obj_id'', JNumber k),
                                                 (''is_selected'', JBool (k \<in> set selected))]),
                             (''data'', JString title)])))"
  by pat_completeness auto
termination
  by (relation "measure (\<lambda>x. case x of
          Inl (f, s, t) \<Rightarrow> 2 * size t
        | Inr (Inl (f, s, ns)) \<Rightarrow> 2 * size_list size ns + 1
        | Inr (Inr (f, s, n)) \<Rightarrow> 2 * size n)")
     (auto dest: tuple_item_size iterate_size)

text \<open>
  \<^verbatim>\<open>_tree_to_json\<close>. The result is the value that \<^verbatim>\<open>json.dumps\<close> writes out; the
  text itself is the work of the standard library and is not modelled.
\<close>

definition tree_to_json ::
  "('a pyobj \<Rightarrow> error + string) \<Rightarrow> int list \<Rightarrow> 'a pyobj \<Rightarrow> error + json" where
  "tree_to_json force_str selected tree =
     (case parse_tree force_str selected tree of
        Inl e \<Rightarrow> Inl e
      | Inr json_tree \<Rightarrow> Inr (JArray json_tree))"

text \<open>
  The nodes the walk has to get through: the elements of the tree and, below every
  tuple, the elements of its second element.
\<close>

function walked_tree :: "'a pyobj \<Rightarrow> 'a pyobj list"
  and walked_nodes :: "'a pyobj list \<Rightarrow> 'a pyobj list"
where
  "walked_tree tree =
     (case iterate tree of
        Inl e \<Rightarrow> []
      | Inr nodes \<Rightarrow> walked_nodes nodes)"
| "walked_nodes [] = []"
| "walked_nodes (Tuple items # rest) =
     Tuple items #
     (case tuple_item items 1 of
        Inl e \<Rightarrow> []
      | Inr children \<Rightarrow> walked_tree children) @
     walked_nodes rest"
| "walked_nodes (Object a pk items # rest) = Object a pk items # walked_nodes rest"
  by pat_completeness auto
termination
  by (relation "measure (\<lambda>x. case x of
          Inl t \<Rightarrow> 2 * size t
        | Inr ns \<Rightarrow> 2 * size_list size ns + 1)")
     (auto dest: tuple_item_size iterate_size)

subsection \<open>Trees and what a reader of the output sees\<close>

text \<open>
  A tree as the data model has it: a leaf is a record with its primary key, a group has
  a label and its children in order. \<open>as_tuples\<close> is the nested tuple the admin class
  supplies for it: a leaf is the record itself, a group the pair of its label and the
  tuple of its children.
\<close>

datatype 'a tree = Leaf 'a int | Group 'a "'a tree list"

fun as_tuples :: "'a tree \<Rightarrow> 'a pyobj" where
  "as_tuples (Leaf a k) = Object a (Some k) None"
| "as_tuples (Group a ts) = Tuple [Object a None None, Tuple (map as_tuples ts)]"

fun leaf_ids :: "'a tree \<Rightarrow> int list" where
  "leaf_ids (Leaf a k) = [k]"
| "leaf_ids (Group a ts) = concat (map leaf_ids ts)"

text \<open>
  Reading the parsed output back: an entry with \<^verbatim>\<open>children\<close> is a group, an entry with
  \<^verbatim>\<open>attr\<close> is a leaf with its identifier and its selection flag.
\<close>

datatype jstree = JLeaf string int bool | JGroup string "jstree list"

lemma map_of_size:
  "map_of kvs k = Some v \<Longrightarrow> size v < Suc (size_list (size_prod (\<lambda>_. 0) size) kvs)"
  by (induction kvs) (auto split: if_splits)

function read_entry :: "json \<Rightarrow> jstree option" where
  "read_entry (JObject kvs) =
     (case map_of kvs ''data'' of
        Some (JString title) \<Rightarrow>
          (case map_of kvs ''children'' of
             Some (JArray entries) \<Rightarrow> map_option (JGroup title) (those (map read_entry entries))
           | Some _ \<Rightarrow> None
           | None \<Rightarrow>
               (case map_of kvs ''attr'' of
                  Some (JObject attr) \<Rightarrow>
                    (case (map_of attr ''obj_id'', map_of attr ''is_selected'') of
                       (Some (JNumber k), Some (JBool b)) \<Rightarrow> Some (JLeaf title k b)
                     | _ \<Rightarrow> None)
                | _ \<Rightarrow> None))
      | _ \<Rightarrow> None)"
| "read_entry (JNumber n) = None"
| "read_entry (JBool b) = None"
| "read_entry (JString s) = None"
| "read_entry (JArray entries) = None"
  by pat_completeness auto
termination
proof (relation "measure size", goal_cases)
  case 1
  show ?case by simp
next
  case (2 kvs x2 title x2a x4 x)
  have "size x \<le> size_list size x4"
    using 2 by (metis size_list_estimation' order_refl)
  moreover have "size (JArray x4) < Suc (size_list (size_prod (\<lambda>_. 0) size) kvs)"
    using 2 by (metis map_of_size)
  ultimately show ?case by simp
qed

definition read_tree :: "json \<Rightarrow> jstree list option" where
  "read_tree j = (case j of JArray entries \<Rightarrow> those (map read_entry entries) | _ \<Rightarrow> None)"

fun outline :: "jstree \<Rightarrow> string tree" where
  "outline (JLeaf title k b) = Leaf title k"
| "outline (JGroup title entries) = Group title (map outline entries)"

fun flags :: "jstree \<Rightarrow> (int \<times> bool) list" where
  "flags (JLeaf title k b) = [(k, b)]"
| "flags (JGroup title entries) = concat (map flags entries)"

fun entry_of :: "('a \<Rightarrow> string) \<Rightarrow> int list \<Rightarrow> 'a tree \<Rightarrow> jstree" where
  "entry_of title selected (Leaf a k) = JLeaf (title a) k (k \<in> set selected)"
| "entry_of title selected (Group a ts) = JGroup (title a) (map (entry_of title selected) ts)"

section \<open>Concrete surroundings for the examples\<close>

text \<open>
  A simple instance of the asset objects: a pair of the style sheets and the scripts,
  where addition appends what is not there yet.
\<close>

definition simple_media :: "((string \<times> string list) list \<times> string list) media_api" where
  "simple_media =
     \<lparr>Media_new = (\<lambda>d. case d of
                         None \<Rightarrow> ([], [])
                       | Some m \<Rightarrow> (case css m of None \<Rightarrow> [] | Some c \<Rightarrow> c,
                                   case js m of None \<Rightarrow> [] | Some j \<Rightarrow> j)),
      Media_add = (\<lambda>x y. (fst x @ filter (\<lambda>p. p \<notin> set (fst x)) (fst y),
                          snd x @ filter (\<lambda>p. p \<notin> set (snd x)) (snd y))),
      Media_css = fst,
      Media_js = snd\<rparr>"

text \<open>In the examples no keyword arguments are read beyond those described above.\<close>

definition no_other :: "kwargs \<Rightarrow> error + (row \<Rightarrow> bool)" where
  "no_other kw = Inl NotImplementedError"

text \<open>
  \<^verbatim>\<open>force_str\<close> over objects that are their own text. A tuple, which is no label and
  no leaf in the examples, reads as \<^verbatim>\<open>(...)\<close>.
\<close>

fun text_of :: "string pyobj \<Rightarrow> error + string" where
  "text_of (Object a pk items) = Inr a"
| "text_of (Tuple items) = Inr ''(...)''"

section \<open>Properties\<close>

subsection \<open>Construction\<close>

lemma add_media_declared:
  "admin_Media admin = Some m \<Longrightarrow> \<exists>admin'. add_media api M admin = Inr admin'"
  by (simp add: add_media_def Let_def)

lemma FiltrateFilter_init_declared:
  assumes "admin_Media admin = Some m"
  shows "\<exists>a. FiltrateFilter_init api M pname request params admin =
           (Inr \<lparr>parameter_name = pname, request_GET = request,
                 used_parameters = (case params pname of None \<Rightarrow> Map.empty | Some v \<Rightarrow> [pname \<mapsto> v])\<rparr>, a)"
  using add_media_declared [OF assms, of api M]
  by (auto simp: FiltrateFilter_init_def)

lemma in_lookup_field_append:
  "field \<noteq> [] \<Longrightarrow> in_lookup_field (field @ ''__in'') = Some field"
  by (simp add: in_lookup_field_def)

lemma read_kwargs_in:
  "field \<noteq> [] \<Longrightarrow>
   read_kwargs other [(field @ ''__in'', Id_list ids)] = Inr (among field ids)"
  by (simp add: read_kwargs_def in_lookup_field_append)

text \<open>
  Claim C1, as stated, fails. The query field is handed to the query builder as it is
  configured; nothing adds the membership lookup. With the query field \<^verbatim>\<open>dept_id\<close> and
  the selection 3, 5 the call is \<^verbatim>\<open>filter(dept_id=[3, 5])\<close>, an exact lookup on a
  list, which raises; it does not give the records whose \<^verbatim>\<open>dept_id\<close> is 3 or 5.
\<close>

theorem TreeFilter_queryset_plain_name_counterexample:
  "TreeFilter_queryset
     \<lparr>parameter_name = ''dept'', request_GET = [], used_parameters = Map.empty,
      query_mode = 1, query_name = Some ''dept_id'', selected_nodes = [3, 5]\<rparr>
     (Records [[''dept_id'' \<mapsto> 3 :: int], [''dept_id'' \<mapsto> 4], [''dept_id'' \<mapsto> 5]]) =
   Inr (Filter_call (Records [[''dept_id'' \<mapsto> 3], [''dept_id'' \<mapsto> 4], [''dept_id'' \<mapsto> 5]])
          [(''dept_id'', Id_list [3, 5])]) \<and>
   rows no_other
     (Filter_call (Records [[''dept_id'' \<mapsto> 3], [''dept_id'' \<mapsto> 4], [''dept_id'' \<mapsto> 5]])
        [(''dept_id'', Id_list [3, 5])]) = Inl TypeError \<and>
   rows no_other
     (Filter_call (Records [[''dept_id'' \<mapsto> 3], [''dept_id'' \<mapsto> 4], [''dept_id'' \<mapsto> 5]])
        [(''dept_id'', Id_list [3, 5])]) \<noteq>
   Inr (filter (among ''dept_id'' [3, 5])
          [[''dept_id'' \<mapsto> 3], [''dept_id'' \<mapsto> 4], [''dept_id'' \<mapsto> 5]])"
  by (simp add: TreeFilter_queryset_def Let_def INCLUDE_def read_kwargs_def in_lookup_field_def)

text \<open>
  Claim C1, amended. With a selection that is not empty, \<^verbatim>\<open>TreeFilter.queryset\<close> in
  INCLUDE mode returns \<^verbatim>\<open>queryset.filter\<close> with the single keyword argument that maps
  the query field (\<open>query_name\<close> when set, else \<open>parameter_name\<close>), exactly as it is
  configured, to the selected identifiers, and in EXCLUDE mode \<^verbatim>\<open>queryset.exclude\<close>
  with the same keyword arguments. When the configured query field is a field name
  followed by \<^verbatim>\<open>__in\<close>, the first gives the records of the incoming queryset whose
  field is among the selected identifiers and the second gives those whose field is not.
\<close>

theorem TreeFilter_queryset_modes:
  assumes "selected_nodes self \<noteq> []"
  shows "(query_mode self = INCLUDE \<longrightarrow>
            TreeFilter_queryset self qs =
              Inr (Filter_call qs
                     [(case query_name self of None \<Rightarrow> parameter_name self | Some n \<Rightarrow> n,
                       Id_list (selected_nodes self))]) \<and>
            (field \<noteq> [] \<and>
             (case query_name self of None \<Rightarrow> parameter_name self | Some n \<Rightarrow> n) = field @ ''__in'' \<longrightarrow>
               (case TreeFilter_queryset self qs of Inl e \<Rightarrow> Inl e | Inr q \<Rightarrow> rows other q) =
               (case rows other qs of
                  Inl e \<Rightarrow> Inl e
                | Inr rs \<Rightarrow> Inr (filter (among field (selected_nodes self)) rs)))) \<and>
         (query_mode self = EXCLUDE \<longrightarrow>
            TreeFilter_queryset self qs =
              Inr (Exclude_call qs
                     [(case query_name self of None \<Rightarrow> parameter_name self | Some n \<Rightarrow> n,
                       Id_list (selected_nodes self))]) \<and>
            (field \<noteq> [] \<and>
             (case query_name self of None \<Rightarrow> parameter_name self | Some n \<Rightarrow> n) = field @ ''__in'' \<longrightarrow>
               (case TreeFilter_queryset self qs of Inl e \<Rightarrow> Inl e | Inr q \<Rightarrow> rows other q) =
               (case rows other qs of
                  Inl e \<Rightarrow> Inl e
                | Inr rs \<Rightarrow> Inr (filter (\<lambda>r. \<not> among field (selected_nodes self) r) rs))))"
  using assms
  by (auto simp: TreeFilter_queryset_def Let_def INCLUDE_def EXCLUDE_def read_kwargs_in
      split: sum.splits)

text \<open>
  The selection 3, 5 on the query field \<^verbatim>\<open>dept_id__in\<close>, over records with the values
  3, 4 and 5: INCLUDE keeps 3 and 5, EXCLUDE keeps 4.
\<close>

theorem TreeFilter_queryset_modes_witness:
  "selected_nodes \<lparr>parameter_name = ''dept'', request_GET = [], used_parameters = Map.empty,
                    query_mode = 1, query_name = Some ''dept_id__in'', selected_nodes = [3, 5]\<rparr> \<noteq> [] \<and>
   (1::int) = INCLUDE \<and> (2::int) = EXCLUDE \<and> ''dept_id'' \<noteq> [] \<and>
   ''dept_id__in'' = ''dept_id'' @ ''__in'' \<and>
   TreeFilter_queryset
     \<lparr>parameter_name = ''dept'', request_GET = [], used_parameters = Map.empty,
      query_mode = 1, query_name = Some ''dept_id__in'', selected_nodes = [3, 5]\<rparr>
     (Records [[''dept_id'' \<mapsto> 3 :: int], [''dept_id'' \<mapsto> 4], [''dept_id'' \<mapsto> 5]]) =
   Inr (Filter_call (Records [[''dept_id'' \<mapsto> 3 :: int], [''dept_id'' \<mapsto> 4], [''dept_id'' \<mapsto> 5]])
          [(''dept_id__in'', Id_list [3, 5])]) \<and>
   (case TreeFilter_queryset
        \<lparr>parameter_name = ''dept'', request_GET = [], used_parameters = Map.empty,
         query_mode = 1, query_name = Some ''dept_id__in'', selected_nodes = [3, 5]\<rparr>
        (Records [[''dept_id'' \<mapsto> 3 :: int], [''dept_id'' \<mapsto> 4], [''dept_id'' \<mapsto> 5]]) of
      Inl e \<Rightarrow> Inl e | Inr q \<Rightarrow> rows no_other q) =
   Inr [[''dept_id'' \<mapsto> 3 :: int], [''dept_id'' \<mapsto> 5]] \<and>
   TreeFilter_queryset
     \<lparr>parameter_name = ''dept_id__in'', request_GET = [], used_parameters = Map.empty,
      query_mode = 2, query_name = None, selected_nodes = [3, 5]\<rparr>
     (Records [[''dept_id'' \<mapsto> 3 :: int], [''dept_id'' \<mapsto> 4], [''dept_id'' \<mapsto> 5]]) =
   Inr (Exclude_call (Records [[''dept_id'' \<mapsto> 3 :: int], [''dept_id'' \<mapsto> 4], [''dept_id'' \<mapsto> 5]])
          [(''dept_id__in'', Id_list [3, 5])]) \<and>
   (case TreeFilter_queryset
        \<lparr>parameter_name = ''dept_id__in'', request_GET = [], used_parameters = Map.empty,
         query_mode = 2, query_name = None, selected_nodes = [3, 5]\<rparr>
        (Records [[''dept_id'' \<mapsto> 3 :: int], [''dept_id'' \<mapsto> 4], [''dept_id'' \<mapsto> 5]]) of
      Inl e \<Rightarrow> Inl e | Inr q \<Rightarrow> rows no_other q) =
   Inr [[''dept_id'' \<mapsto> 4 :: int]]"
  using TreeFilter_queryset_modes
          [where self = "\<lparr>parameter_name = ''dept'', request_GET = [], used_parameters = Map.empty,
                query_mode = 1, query_name = Some ''dept_id__in'', selected_nodes = [3, 5]\<rparr>"
             and qs = "Records [[''dept_id'' \<mapsto> 3 :: int], [''dept_id'' \<mapsto> 4], [''dept_id'' \<mapsto> 5]]"
             and field = "''dept_id''" and other = no_other]
        TreeFilter_queryset_modes
          [where self = "\<lparr>parameter_name = ''dept_id__in'', request_GET = [], used_parameters = Map.empty,
                query_mode = 2, query_name = None, selected_nodes = [3, 5]\<rparr>"
             and qs = "Records [[''dept_id'' \<mapsto> 3 :: int], [''dept_id'' \<mapsto> 4], [''dept_id'' \<mapsto> 5]]"
             and field = "''dept_id''" and other = no_other]
  by (simp add: INCLUDE_def EXCLUDE_def among_def read_kwargs_def in_lookup_field_def)

text \<open>
  Claim C8. With a selection that is not empty and a \<open>query_mode\<close> that is neither
  INCLUDE nor EXCLUDE, \<^verbatim>\<open>TreeFilter.queryset\<close> raises the exception with the message
  \<^verbatim>\<open>Unknown query_mode given.\<close>; no queryset is built from the incoming one.
\<close>

theorem TreeFilter_queryset_unknown_mode:
  assumes "selected_nodes self \<noteq> []"
    and "query_mode self \<noteq> INCLUDE"
    and "query_mode self \<noteq> EXCLUDE"
  shows "TreeFilter_queryset self qs = Inl (Exception ''Unknown query_mode given.'')"
  using assms by (simp add: TreeFilter_queryset_def Let_def)

text \<open>The mode 3 with the selection 7.\<close>

theorem TreeFilter_queryset_unknown_mode_witness:
  "selected_nodes \<lparr>parameter_name = ''dept'', request_GET = [], used_parameters = Map.empty,
                    query_mode = 3, query_name = None, selected_nodes = [7]\<rparr> \<noteq> [] \<and>
   (3::int) \<noteq> INCLUDE \<and> (3::int) \<noteq> EXCLUDE \<and>
   TreeFilter_queryset
     \<lparr>parameter_name = ''dept'', request_GET = [], used_parameters = Map.empty,
      query_mode = 3, query_name = None, selected_nodes = [7]\<rparr>
     (Records [1, 2, 3 :: nat]) = Inl (Exception ''Unknown query_mode given.'')"
  using TreeFilter_queryset_unknown_mode
          [of "\<lparr>parameter_name = ''dept'', request_GET = [], used_parameters = Map.empty,
                query_mode = 3, query_name = None, selected_nodes = [7]\<rparr>"
              "Records [1, 2, 3 :: nat]"]
  by (simp add: INCLUDE_def EXCLUDE_def)

text \<open>
  Claim C2. When the parameters do not contain the filter's key, the base filter has
  the value \<^verbatim>\<open>None\<close>, the tree filter has the empty selection, and the queryset
  translation of either returns the incoming queryset as it is. (The admin declares
  \<^verbatim>\<open>Media\<close>; without it no filter can be constructed.)
\<close>

theorem queryset_identity_without_key:
  assumes "params pname = None"
    and "admin_Media admin = Some m"
  shows "(\<exists>f a. FiltrateFilter_init api M pname request params admin = (Inr f, a) \<and>
                value f = None \<and> FiltrateFilter_queryset f qs = Inr qs) \<and>
         (\<exists>t a. TreeFilter_init api M pname qmode qname request params admin = (Inr t, a) \<and>
                selected_nodes t = [] \<and> TreeFilter_queryset t qs = Inr qs)"
proof -
  from FiltrateFilter_init_declared [OF assms(2), of api M pname request params]
  obtain a where a: "FiltrateFilter_init api M pname request params admin =
      (Inr \<lparr>parameter_name = pname, request_GET = request, used_parameters = Map.empty\<rparr>, a)"
    using assms(1) by auto
  have "value \<lparr>parameter_name = pname, request_GET = request, used_parameters = Map.empty\<rparr> = None"
    by (simp add: value_def)
  then show ?thesis
    using a by (simp add: TreeFilter_init_def FiltrateFilter_queryset_def TreeFilter_queryset_def)
qed

text \<open>A request with the one parameter \<^verbatim>\<open>q=x\<close> and the filter key \<^verbatim>\<open>dept\<close>.\<close>

theorem queryset_identity_without_key_witness:
  "[''q'' \<mapsto> ''x''] ''dept'' = None \<and>
   admin_Media \<lparr>admin_Media = Some \<lparr>css = None, js = None\<rparr>\<rparr> = Some \<lparr>css = None, js = None\<rparr> \<and>
   (\<exists>f a. FiltrateFilter_init simple_media FiltrateFilter_Media ''dept'' [(''q'', ''x'')]
             [''q'' \<mapsto> ''x''] \<lparr>admin_Media = Some \<lparr>css = None, js = None\<rparr>\<rparr> = (Inr f, a) \<and>
          value f = None \<and> FiltrateFilter_queryset f (Records [1, 2, 3 :: nat]) = Inr (Records [1, 2, 3])) \<and>
   (\<exists>t a. TreeFilter_init simple_media FiltrateFilter_Media ''dept'' 1 None [(''q'', ''x'')]
             [''q'' \<mapsto> ''x''] \<lparr>admin_Media = Some \<lparr>css = None, js = None\<rparr>\<rparr> = (Inr t, a) \<and>
          selected_nodes t = [] \<and> TreeFilter_queryset t (Records [1, 2, 3 :: nat]) = Inr (Records [1, 2, 3]))"
  using queryset_identity_without_key
          [of "[''q'' \<mapsto> ''x'']" "''dept''" "\<lparr>admin_Media = Some \<lparr>css = None, js = None\<rparr>\<rparr>"
              "\<lparr>css = None, js = None\<rparr>" simple_media FiltrateFilter_Media "[(''q'', ''x'')]"
              "Records [1, 2, 3 :: nat]" 1 None]
  by simp

subsection \<open>Reading a written selection\<close>

lemma below_ten:
  "(d::nat) < 10 \<Longrightarrow>
   d = 0 \<or> d = 1 \<or> d = 2 \<or> d = 3 \<or> d = 4 \<or> d = 5 \<or> d = 6 \<or> d = 7 \<or> d = 8 \<or> d = 9"
  by presburger

lemma digit_value_digit_char: "d < 10 \<Longrightarrow> digit_value (digit_char d) = Some d"
  by (drule below_ten) (elim disjE; simp add: digit_char_def digit_value_def)

lemma digit_value_plain:
  "digit_value c = Some d \<Longrightarrow> c \<noteq> CHR '','' \<and> c \<noteq> CHR ''-'' \<and> c \<noteq> CHR ''+'' \<and> \<not> is_space c"
  by (auto simp: digit_value_def is_space_def split: if_splits)

lemma parse_digits_nat_digits:
  "parse_digits acc b (nat_digits n @ rest) =
   parse_digits (acc * 10 ^ length (nat_digits n) + n) True rest"
proof (induction n arbitrary: acc b rest rule: nat_digits.induct)
  case (1 n)
  show ?case
  proof (cases "n < 10")
    case True
    then show ?thesis
      by (simp add: nat_digits.simps [of n] digit_value_digit_char mult.commute)
  next
    case False
    have m: "n mod 10 < 10" by simp
    have "parse_digits acc b (nat_digits n @ rest) =
          parse_digits acc b (nat_digits (n div 10) @ (digit_char (n mod 10) # rest))"
      using False by (simp add: nat_digits.simps [of n])
    also have "\<dots> = parse_digits (acc * 10 ^ length (nat_digits (n div 10)) + n div 10) True
                       (digit_char (n mod 10) # rest)"
      using False by (rule "1.IH")
    also have "\<dots> = parse_digits
                       (10 * (acc * 10 ^ length (nat_digits (n div 10)) + n div 10) + n mod 10)
                       True rest"
      by (simp add: digit_value_digit_char [OF m])
    also have "10 * (acc * 10 ^ length (nat_digits (n div 10)) + n div 10) + n mod 10 =
               acc * 10 ^ length (nat_digits n) + n"
      using False by (simp add: nat_digits.simps [of n] algebra_simps)
    finally show ?thesis .
  qed
qed

lemma parse_nat_digits: "parse_digits 0 False (nat_digits n) = Some n"
  using parse_digits_nat_digits [of 0 False n "[]"] by simp

lemma nat_digits_plain:
  "c \<in> set (nat_digits n) \<Longrightarrow> \<exists>d. digit_value c = Some d"
proof (induction n rule: nat_digits.induct)
  case (1 n)
  show ?case
  proof (cases "n < 10")
    case True
    with "1.prems" show ?thesis
      by (auto simp: nat_digits.simps [of n] digit_value_digit_char)
  next
    case False
    have m: "n mod 10 < 10" by simp
    from False "1.prems" "1.IH" show ?thesis
      by (auto simp: nat_digits.simps [of n] digit_value_digit_char [OF m])
  qed
qed

lemma nat_digits_not_Nil: "nat_digits n \<noteq> []"
  by (simp add: nat_digits.simps [of n])

text \<open>The number of digits of a number, against the limit.\<close>

lemma nat_digits_all_digits:
  "filter (\<lambda>c. digit_value c \<noteq> None) (nat_digits n) = nat_digits n"
  using nat_digits_plain [of _ n] by (auto simp: filter_id_conv)

lemma length_nat_digits_le:
  "n < 10 ^ k \<Longrightarrow> 0 < k \<Longrightarrow> length (nat_digits n) \<le> k"
proof (induction n arbitrary: k rule: nat_digits.induct)
  case (1 n)
  show ?case
  proof (cases "n < 10")
    case True
    with "1.prems" show ?thesis
      by (simp add: nat_digits.simps [of n])
  next
    case False
    obtain j where k: "k = Suc j"
      using "1.prems" by (cases k) auto
    from False "1.prems" k have "0 < j"
      by (cases j) auto
    moreover from "1.prems" k have "n div 10 < 10 ^ j"
      by (simp add: less_mult_imp_div_less mult.commute)
    ultimately have "length (nat_digits (n div 10)) \<le> j"
      using False by (intro "1.IH")
    with False k show ?thesis
      by (simp add: nat_digits.simps [of n])
  qed
qed

lemma length_nat_digits_gt:
  "10 ^ k \<le> n \<Longrightarrow> k < length (nat_digits n)"
proof (induction n arbitrary: k rule: nat_digits.induct)
  case (1 n)
  show ?case
  proof (cases "n < 10")
    case True
    have "k = 0"
    proof (cases k)
      case 0
      then show ?thesis .
    next
      case (Suc j)
      have "(1::nat) \<le> 10 ^ j" by simp
      then have "(10::nat) \<le> 10 ^ k" using Suc by simp
      with True "1.prems" show ?thesis by linarith
    qed
    then show ?thesis
      by (simp add: nat_digits.simps [of n])
  next
    case False
    show ?thesis
    proof (cases k)
      case 0
      then show ?thesis
        using nat_digits_not_Nil [of n] by (cases "nat_digits n") auto
    next
      case (Suc j)
      with "1.prems" have "10 ^ j \<le> n div 10"
        by (simp add: less_eq_div_iff_mult_less_eq mult.commute)
      with False have "j < length (nat_digits (n div 10))"
        by (intro "1.IH")
      with False Suc show ?thesis
        by (simp add: nat_digits.simps [of n])
    qed
  qed
qed

lemma max_str_digits_pos: "0 < max_str_digits"
  by (simp add: max_str_digits_def)

lemma digits_to_nat_nat_digits:
  "n < 10 ^ max_str_digits \<Longrightarrow> digits_to_nat (nat_digits n) = Inr n"
  unfolding digits_to_nat_def parse_nat_digits nat_digits_all_digits
  using length_nat_digits_le [of n max_str_digits] max_str_digits_pos
  by simp

lemma digits_to_nat_too_long:
  "10 ^ max_str_digits \<le> n \<Longrightarrow> digits_to_nat (nat_digits n) = Inl ValueError"
  unfolding digits_to_nat_def parse_nat_digits nat_digits_all_digits
  using length_nat_digits_gt [of max_str_digits n]
  by simp

lemma strip_plain:
  assumes "s \<noteq> []" "\<not> is_space (hd s)" "\<not> is_space (last s)"
  shows "strip s = s"
proof -
  from assms have "dropWhile is_space s = s"
    by (cases s) simp_all
  moreover from assms have "dropWhile is_space (rev s) = rev s"
    by (cases "rev s") (simp_all add: last_rev [symmetric] hd_rev)
  ultimately show ?thesis by (simp add: strip_def)
qed

lemma nat_digits_ends:
  "\<not> is_space (hd (nat_digits n)) \<and> hd (nat_digits n) \<noteq> CHR ''-'' \<and>
   hd (nat_digits n) \<noteq> CHR ''+'' \<and> \<not> is_space (last (nat_digits n))"
proof -
  have "hd (nat_digits n) \<in> set (nat_digits n)" "last (nat_digits n) \<in> set (nat_digits n)"
    using nat_digits_not_Nil by simp_all
  then show ?thesis
    using nat_digits_plain digit_value_plain by blast
qed

lemma py_int_digits: "py_int (nat_digits n) = map_sum id int (digits_to_nat (nat_digits n))"
proof -
  have s: "strip (nat_digits n) = nat_digits n"
    using nat_digits_not_Nil nat_digits_ends by (intro strip_plain) simp_all
  obtain c cs where cs: "nat_digits n = c # cs"
    using nat_digits_not_Nil [of n] by (cases "nat_digits n") auto
  have c: "c \<noteq> CHR ''-''" "c \<noteq> CHR ''+''"
    using nat_digits_ends [of n] cs by simp_all
  show ?thesis
    unfolding py_int_def s unfolding cs
    using c by (simp split: sum.splits)
qed

lemma py_int_minus_digits:
  "py_int (CHR ''-'' # nat_digits n) = map_sum id (\<lambda>n. - int n) (digits_to_nat (nat_digits n))"
proof -
  have "strip (CHR ''-'' # nat_digits n) = CHR ''-'' # nat_digits n"
    using nat_digits_not_Nil nat_digits_ends by (intro strip_plain) (simp_all add: is_space_def)
  then show ?thesis
    by (simp add: py_int_def split: sum.splits)
qed

lemma py_int_py_str_int: "\<bar>i\<bar> < 10 ^ max_str_digits \<Longrightarrow> py_int (py_str_int i) = Inr i"
proof -
  assume a: "\<bar>i\<bar> < 10 ^ max_str_digits"
  show ?thesis
  proof (cases "i < 0")
    case True
    with a have "nat (- i) < 10 ^ max_str_digits"
      by (simp add: nat_less_iff)
    with True show ?thesis
      by (simp add: py_str_int_def py_int_minus_digits digits_to_nat_nat_digits)
  next
    case False
    with a have "nat i < 10 ^ max_str_digits"
      by (simp add: nat_less_iff)
    with False show ?thesis
      by (simp add: py_str_int_def py_int_digits digits_to_nat_nat_digits)
  qed
qed

lemma py_int_too_long:
  "10 ^ max_str_digits \<le> i \<Longrightarrow> py_int (py_str_int i) = Inl ValueError"
proof -
  assume a: "10 ^ max_str_digits \<le> i"
  have "(0::int) < 10 ^ max_str_digits" by simp
  with a have pos: "\<not> i < 0" by linarith
  from a have "10 ^ max_str_digits \<le> nat i"
    by (simp add: le_nat_iff)
  with pos show ?thesis
    by (simp add: py_str_int_def py_int_digits digits_to_nat_too_long)
qed

lemma small_below_limit: "\<bar>i\<bar> < 1000 \<Longrightarrow> \<bar>i\<bar> < (10::int) ^ max_str_digits"
proof -
  assume "\<bar>i\<bar> < 1000"
  moreover have "(10::int) ^ 3 \<le> 10 ^ max_str_digits"
    by (rule power_increasing) (simp_all add: max_str_digits_def)
  ultimately show ?thesis by simp
qed

lemma nat_digits_no_comma: "CHR '','' \<notin> set (nat_digits n)"
proof
  assume "CHR '','' \<in> set (nat_digits n)"
  then obtain d where "digit_value CHR '','' = Some d"
    using nat_digits_plain by blast
  then show False by (simp add: digit_value_def)
qed

lemma py_str_int_no_comma: "CHR '','' \<notin> set (py_str_int i)"
  by (simp add: py_str_int_def nat_digits_no_comma)

lemma map_int_py_str_int:
  "\<forall>n \<in> set ns. \<bar>n\<bar> < 10 ^ max_str_digits \<Longrightarrow> map_int (map py_str_int ns) = Inr ns"
  by (induction ns) (simp_all add: py_int_py_str_int)

lemma split_comma_plain: "CHR '','' \<notin> set s \<Longrightarrow> split_comma s = [s]"
  by (induction s) auto

lemma split_comma_append:
  "CHR '','' \<notin> set p \<Longrightarrow> split_comma (p @ CHR '','' # s) = p # split_comma s"
  by (induction p) auto

lemma split_comma_join_comma:
  "ps \<noteq> [] \<Longrightarrow> \<forall>p \<in> set ps. CHR '','' \<notin> set p \<Longrightarrow> split_comma (join_comma ps) = ps"
  by (induction ps rule: join_comma.induct) (simp_all add: split_comma_plain split_comma_append)

lemma split_written_selection:
  "ns \<noteq> [] \<Longrightarrow> split_comma (join_comma (map py_str_int ns)) = map py_str_int ns"
  by (simp add: split_comma_join_comma py_str_int_no_comma)

lemma read_written_selection:
  "ns \<noteq> [] \<Longrightarrow> \<forall>n \<in> set ns. \<bar>n\<bar> < 10 ^ max_str_digits \<Longrightarrow>
   map_int (split_comma (join_comma (map py_str_int ns))) = Inr ns"
  by (simp add: split_written_selection map_int_py_str_int)

text \<open>
  Claim C3, as stated, fails at two well-formed lists. The empty list is written as the
  empty text, whose one piece is empty, and \<^verbatim>\<open>int('')\<close> raises. An identifier of more
  digits than the limit raises as well. The admin's media are overwritten all the same.
\<close>

theorem TreeFilter_init_selection_counterexample:
  "fst (TreeFilter_init simple_media FiltrateFilter_Media ''dept'' 1 None
          [(''dept'', join_comma (map py_str_int []))]
          [''dept'' \<mapsto> join_comma (map py_str_int [])]
          \<lparr>admin_Media = Some \<lparr>css = None, js = None\<rparr>\<rparr>) = Inl ValueError \<and>
   fst (TreeFilter_init simple_media FiltrateFilter_Media ''dept'' 1 None
          [(''dept'', join_comma (map py_str_int [7, 10 ^ max_str_digits]))]
          [''dept'' \<mapsto> join_comma (map py_str_int [7, 10 ^ max_str_digits])]
          \<lparr>admin_Media = Some \<lparr>css = None, js = None\<rparr>\<rparr>) = Inl ValueError"
proof -
  have long: "py_int (py_str_int (10 ^ max_str_digits)) = Inl ValueError"
    by (rule py_int_too_long) (rule order_refl)
  have seven: "py_int (py_str_int 7) = Inr 7"
    using small_below_limit [of 7] by (intro py_int_py_str_int) simp
  have "split_comma (join_comma (map py_str_int [7, 10 ^ max_str_digits])) =
          map py_str_int [7, 10 ^ max_str_digits]"
    by (rule split_written_selection) simp
  then have two: "map_int (split_comma (join_comma (map py_str_int [7, 10 ^ max_str_digits]))) =
      Inl ValueError"
    by (simp add: long seven)
  have none: "map_int (split_comma (join_comma (map py_str_int []))) = Inl ValueError"
    by (simp add: py_int_def strip_def)
  show ?thesis
    unfolding TreeFilter_init_def FiltrateFilter_init_def add_media_def Let_def value_def
    by (simp add: two none del: join_comma.simps split_comma.simps map_int.simps list.map)
qed

text \<open>
  Claim C3, amended. A selection of at least one identifier, each of no more digits than
  the limit of the interpreter (4300), written in decimal and separated by commas, is
  parsed by the constructor into exactly that list, order and repetitions kept. When the
  parameter is absent the selection is empty.
\<close>

theorem TreeFilter_init_selection:
  assumes "admin_Media admin = Some m"
  shows "(ns \<noteq> [] \<and> (\<forall>n \<in> set ns. \<bar>n\<bar> < 10 ^ max_str_digits) \<and>
          params pname = Some (join_comma (map py_str_int ns)) \<longrightarrow>
            (\<exists>t a. TreeFilter_init api M pname qmode qname request params admin = (Inr t, a) \<and>
                   selected_nodes t = ns)) \<and>
         (params pname = None \<longrightarrow>
            (\<exists>t a. TreeFilter_init api M pname qmode qname request params admin = (Inr t, a) \<and>
                   selected_nodes t = []))"
proof -
  from FiltrateFilter_init_declared [OF assms, of api M pname request params]
  obtain a where a: "FiltrateFilter_init api M pname request params admin =
      (Inr \<lparr>parameter_name = pname, request_GET = request,
            used_parameters = (case params pname of None \<Rightarrow> Map.empty | Some v \<Rightarrow> [pname \<mapsto> v])\<rparr>, a)"
    by auto
  show ?thesis
    using a by (auto simp: TreeFilter_init_def value_def read_written_selection)
qed

text \<open>The value \<^verbatim>\<open>5,3,-12,5,0\<close>, and a request without the parameter.\<close>

theorem TreeFilter_init_selection_witness:
  "admin_Media \<lparr>admin_Media = Some \<lparr>css = None, js = None\<rparr>\<rparr> = Some \<lparr>css = None, js = None\<rparr> \<and>
   [5, 3, - 12, 5, 0] \<noteq> ([] :: int list) \<and>
   join_comma (map py_str_int [5, 3, - 12, 5, 0]) = ''5,3,-12,5,0'' \<and>
   (\<exists>t a. TreeFilter_init simple_media FiltrateFilter_Media ''dept'' 1 None
             [(''dept'', ''5,3,-12,5,0'')] [''dept'' \<mapsto> ''5,3,-12,5,0'']
             \<lparr>admin_Media = Some \<lparr>css = None, js = None\<rparr>\<rparr> = (Inr t, a) \<and>
          selected_nodes t = [5, 3, - 12, 5, 0]) \<and>
   (\<exists>t a. TreeFilter_init simple_media FiltrateFilter_Media ''dept'' 1 None
             [] Map.empty \<lparr>admin_Media = Some \<lparr>css = None, js = None\<rparr>\<rparr> = (Inr t, a) \<and>
          selected_nodes t = [])"
proof -
  have small: "\<forall>n \<in> set [5, 3, - 12, 5, 0 :: int]. \<bar>n\<bar> < 10 ^ max_str_digits"
    using small_below_limit [of 5] small_below_limit [of 3] small_below_limit [of "- 12"]
      small_below_limit [of 0]
    by simp
  show ?thesis
    using TreeFilter_init_selection
            [of "\<lparr>admin_Media = Some \<lparr>css = None, js = None\<rparr>\<rparr>" "\<lparr>css = None, js = None\<rparr>"
                "[5, 3, - 12, 5, 0]" "[''dept'' \<mapsto> ''5,3,-12,5,0'']" "''dept''"
                simple_media FiltrateFilter_Media 1 None "[(''dept'', ''5,3,-12,5,0'')]"]
          TreeFilter_init_selection
            [of "\<lparr>admin_Media = Some \<lparr>css = None, js = None\<rparr>\<rparr>" "\<lparr>css = None, js = None\<rparr>"
                "[]" "Map.empty" "''dept''"
                simple_media FiltrateFilter_Media 1 None "[]"]
          small
    by (simp add: py_str_int_def nat_digits.simps digit_char_def)
qed

subsection \<open>Serialisation of a tree\<close>

lemma parse_nodes_map:
  assumes "\<And>t. t \<in> set ts \<Longrightarrow>
             \<exists>j. parse_node fs sel (f t) = Inr j \<and> read_entry j = Some (g t)"
  shows "\<exists>js. parse_nodes fs sel (map f ts) = Inr js \<and> those (map read_entry js) = Some (map g ts)"
  using assms
proof (induction ts)
  case Nil
  then show ?case by simp
next
  case (Cons t ts)
  from Cons.prems [of t] obtain j where j: "parse_node fs sel (f t) = Inr j" "read_entry j = Some (g t)"
    by auto
  from Cons.IH Cons.prems obtain js where
    js: "parse_nodes fs sel (map f ts) = Inr js" "those (map read_entry js) = Some (map g ts)"
    by auto
  show ?case using j js by (simp del: read_entry.simps)
qed

lemma parse_node_as_tuples:
  assumes "\<And>a pk items. a \<in> set_tree t \<Longrightarrow> fs (Object a pk items) = Inr (title a)"
  shows "\<exists>j. parse_node fs sel (as_tuples t) = Inr j \<and> read_entry j = Some (entry_of title sel t)"
  using assms
proof (induction t)
  case (Leaf a k)
  then show ?case by simp
next
  case (Group a ts)
  have "\<exists>j. parse_node fs sel (as_tuples t) = Inr j \<and> read_entry j = Some (entry_of title sel t)"
    if "t \<in> set ts" for t
  proof (rule Group.IH [OF that])
    fix b pk items
    assume "b \<in> set_tree t"
    with that show "fs (Object b pk items) = Inr (title b)"
      by (intro Group.prems) auto
  qed
  then obtain js where js: "parse_nodes fs sel (map as_tuples ts) = Inr js"
      "those (map read_entry js) = Some (map (entry_of title sel) ts)"
    using parse_nodes_map [of ts fs sel as_tuples "entry_of title sel"] by blast
  have "fs (Object a None None) = Inr (title a)"
    using Group.prems by simp
  then show ?case
    using js by (simp add: tuple_item_def)
qed

lemma tree_to_json_as_tuples:
  assumes "\<And>a pk items. a \<in> \<Union> (set_tree ` set ts) \<Longrightarrow> fs (Object a pk items) = Inr (title a)"
  shows "\<exists>j. tree_to_json fs sel (Tuple (map as_tuples ts)) = Inr j \<and>
             read_tree j = Some (map (entry_of title sel) ts)"
proof -
  have "\<And>t. t \<in> set ts \<Longrightarrow>
          \<exists>j. parse_node fs sel (as_tuples t) = Inr j \<and> read_entry j = Some (entry_of title sel t)"
    using assms by (intro parse_node_as_tuples) auto
  then obtain js where js: "parse_nodes fs sel (map as_tuples ts) = Inr js"
      "those (map read_entry js) = Some (map (entry_of title sel) ts)"
    using parse_nodes_map [of ts fs sel as_tuples "entry_of title sel"] by blast
  then show ?thesis
    by (simp add: tree_to_json_def read_tree_def)
qed

lemma outline_entry_of: "outline (entry_of title sel t) = map_tree title t"
  by (induction t) simp_all

lemma flags_entry_of: "flags (entry_of title sel t) = map (\<lambda>k. (k, k \<in> set sel)) (leaf_ids t)"
  by (induction t) (simp_all add: map_concat comp_def cong: map_cong)

text \<open>
  Claim C4. For every tree and every selection, when \<^verbatim>\<open>force_str\<close> gives the text of
  the tree's objects, the serialisation succeeds, and the leaf entries of the output, read
  in order, carry the identifiers of the tree's leaves, each with the flag
  \<^verbatim>\<open>is_selected\<close> that says whether the identifier is in the selection. With the
  empty selection every flag is false.
\<close>

theorem leaf_is_selected_iff_member:
  assumes "\<And>a pk items. a \<in> \<Union> (set_tree ` set ts) \<Longrightarrow> force_str (Object a pk items) = Inr (title a)"
  shows "\<exists>j es. tree_to_json force_str selected (Tuple (map as_tuples ts)) = Inr j \<and>
           read_tree j = Some es \<and>
           concat (map flags es) = map (\<lambda>k. (k, k \<in> set selected)) (concat (map leaf_ids ts)) \<and>
           (selected = [] \<longrightarrow> (\<forall>x \<in> set (concat (map flags es)). \<not> snd x))"
proof -
  from tree_to_json_as_tuples [of ts force_str title selected] assms
  obtain j where j: "tree_to_json force_str selected (Tuple (map as_tuples ts)) = Inr j"
      "read_tree j = Some (map (entry_of title selected) ts)"
    by blast
  have f: "concat (map flags (map (entry_of title selected) ts)) =
           map (\<lambda>k. (k, k \<in> set selected)) (concat (map leaf_ids ts))"
    by (simp add: map_concat comp_def flags_entry_of)
  have "selected = [] \<longrightarrow> (\<forall>x \<in> set (concat (map flags (map (entry_of title selected) ts))). \<not> snd x)"
    unfolding f by auto
  with j f show ?thesis by blast
qed

text \<open>
  A leaf and a group of two leaves, with the selection 3, 5 and with the empty selection.
\<close>

theorem leaf_is_selected_iff_member_witness:
  "tree_to_json text_of [3, 5]
     (Tuple (map as_tuples [Leaf ''Ann'' 3, Group ''Sales'' [Leaf ''Bob'' 4, Leaf ''Cy'' 5]])) =
   Inr (JArray
     [JObject [(''attr'', JObject [(''obj_id'', JNumber 3), (''is_selected'', JBool True)]),
               (''data'', JString ''Ann'')],
      JObject [(''data'', JString ''Sales''),
               (''children'', JArray
                 [JObject [(''attr'', JObject [(''obj_id'', JNumber 4), (''is_selected'', JBool False)]),
                           (''data'', JString ''Bob'')],
                  JObject [(''attr'', JObject [(''obj_id'', JNumber 5), (''is_selected'', JBool True)]),
                           (''data'', JString ''Cy'')]])]]) \<and>
   map_option (\<lambda>es. concat (map flags es))
     (read_tree (JArray
     [JObject [(''attr'', JObject [(''obj_id'', JNumber 3), (''is_selected'', JBool True)]),
               (''data'', JString ''Ann'')],
      JObject [(''data'', JString ''Sales''),
               (''children'', JArray
                 [JObject [(''attr'', JObject [(''obj_id'', JNumber 4), (''is_selected'', JBool False)]),
                           (''data'', JString ''Bob'')],
                  JObject [(''attr'', JObject [(''obj_id'', JNumber 5), (''is_selected'', JBool True)]),
                           (''data'', JString ''Cy'')]])]])) =
   Some [(3, True), (4, False), (5, True)] \<and>
   map_option (\<lambda>es. concat (map flags es))
     (case tree_to_json text_of []
        (Tuple (map as_tuples [Leaf ''Ann'' 3, Group ''Sales'' [Leaf ''Bob'' 4, Leaf ''Cy'' 5]])) of
        Inl e \<Rightarrow> None | Inr j \<Rightarrow> read_tree j) =
   Some [(3, False), (4, False), (5, False)]"
proof -
  have h: "\<And>a pk items.
      a \<in> \<Union> (set_tree ` set [Leaf ''Ann'' 3, Group ''Sales'' [Leaf ''Bob'' 4, Leaf ''Cy'' 5]]) \<Longrightarrow>
      text_of (Object a pk items) = Inr (id a)"
    by simp
  show ?thesis
    using leaf_is_selected_iff_member [of "[Leaf ''Ann'' 3, Group ''Sales'' [Leaf ''Bob'' 4, Leaf ''Cy'' 5]]"
            text_of id "[3, 5]", OF h]
          leaf_is_selected_iff_member [of "[Leaf ''Ann'' 3, Group ''Sales'' [Leaf ''Bob'' 4, Leaf ''Cy'' 5]]"
            text_of id "[]", OF h]
    by (simp add: tree_to_json_def tuple_item_def read_tree_def)
qed

text \<open>
  Claim C5. For every tree, when \<^verbatim>\<open>force_str\<close> gives the text of the tree's objects,
  the serialisation succeeds and reading the output back gives the tree again: every
  group with its children under it, recursively, siblings in the order of the input.
\<close>

theorem tree_to_json_structure:
  assumes "\<And>a pk items. a \<in> \<Union> (set_tree ` set ts) \<Longrightarrow> force_str (Object a pk items) = Inr (title a)"
  shows "\<exists>j es. tree_to_json force_str selected (Tuple (map as_tuples ts)) = Inr j \<and>
           read_tree j = Some es \<and>
           map outline es = map (map_tree title) ts"
proof -
  from tree_to_json_as_tuples [of ts force_str title selected] assms
  obtain j where j: "tree_to_json force_str selected (Tuple (map as_tuples ts)) = Inr j"
      "read_tree j = Some (map (entry_of title selected) ts)"
    by blast
  have "map outline (map (entry_of title selected) ts) = map (map_tree title) ts"
    by (simp add: outline_entry_of)
  with j show ?thesis by blast
qed

text \<open>Groups nested twice, an empty group, and a leaf after a group.\<close>

theorem tree_to_json_structure_witness:
  "map_option (map outline)
     (case tree_to_json text_of [4]
        (Tuple (map as_tuples
           [Group ''North'' [Leaf ''Ann'' 3, Group ''Sales'' [Leaf ''Bob'' 4], Group ''Empty'' []],
            Leaf ''Cy'' 5])) of
        Inl e \<Rightarrow> None | Inr j \<Rightarrow> read_tree j) =
   Some [Group ''North'' [Leaf ''Ann'' 3, Group ''Sales'' [Leaf ''Bob'' 4], Group ''Empty'' []],
         Leaf ''Cy'' 5]"
proof -
  have h: "\<And>a pk items.
      a \<in> \<Union> (set_tree ` set
           [Group ''North'' [Leaf ''Ann'' 3, Group ''Sales'' [Leaf ''Bob'' 4], Group ''Empty'' []],
            Leaf ''Cy'' 5]) \<Longrightarrow>
      text_of (Object a pk items) = Inr (id a)"
    by simp
  show ?thesis
    using tree_to_json_structure [of
            "[Group ''North'' [Leaf ''Ann'' 3, Group ''Sales'' [Leaf ''Bob'' 4], Group ''Empty'' []],
              Leaf ''Cy'' 5]"
            text_of id "[4]", OF h]
    by (simp add: tree_to_json_def tuple_item_def read_tree_def)
qed

subsection \<open>Which nodes are groups\<close>

lemma parse_nodes_collect:
  "parse_nodes fs sel nodes = collect (map (parse_node fs sel) nodes)"
  by (induction nodes) (simp_all split: sum.splits)

lemma walked_fails:
  "node \<in> set (walked_tree tree) \<Longrightarrow> parse_node fs sel node = Inl e \<Longrightarrow>
     \<exists>e'. parse_tree fs sel tree = Inl e'"
  "node \<in> set (walked_nodes nodes) \<Longrightarrow> parse_node fs sel node = Inl e \<Longrightarrow>
     \<exists>e'. parse_nodes fs sel nodes = Inl e'"
proof (induction tree and nodes rule: walked_tree_walked_nodes.induct)
  case (1 tree)
  show ?case
  proof (cases "iterate tree")
    case (Inl e0)
    with "1.prems" show ?thesis by simp
  next
    case (Inr nodes)
    with "1.prems" have "node \<in> set (walked_nodes nodes)" by simp
    with "1.IH" [OF Inr] "1.prems"(2) Inr show ?thesis by simp
  qed
next
  case 2
  then show ?case by simp
next
  case (3 items rest)
  note fails = "3.prems"(2)
  have later: "\<exists>e'. parse_nodes fs sel (Tuple items # rest) = Inl e'"
    if "node \<in> set (walked_nodes rest)"
  proof -
    from "3.IH"(2) [OF that fails] obtain e' where "parse_nodes fs sel rest = Inl e'"
      by blast
    then show ?thesis by (auto split: sum.splits)
  qed
  have here: "\<exists>e'. parse_nodes fs sel (Tuple items # rest) = Inl e'"
    if "node = Tuple items"
    using that fails by simp
  show ?case
  proof (cases "tuple_item items 1")
    case (Inl e0)
    with "3.prems"(1) have "node = Tuple items \<or> node \<in> set (walked_nodes rest)"
      by simp
    with here later show ?thesis by blast
  next
    case (Inr children)
    with "3.prems"(1) consider "node = Tuple items" | "node \<in> set (walked_tree children)"
      | "node \<in> set (walked_nodes rest)"
      by (auto simp del: walked_tree.simps(1))
    then show ?thesis
    proof cases
      case 1
      then show ?thesis by (rule here)
    next
      case 2
      from "3.IH"(1) [OF Inr 2 fails] obtain e' where "parse_tree fs sel children = Inl e'"
        by blast
      with Inr have "\<exists>e''. parse_node fs sel (Tuple items) = Inl e''"
        by (auto simp del: parse_tree.simps(1) split: sum.splits)
      then show ?thesis by auto
    next
      case 3
      then show ?thesis by (rule later)
    qed
  qed
next
  case (4 a pk items rest)
  then show ?case
    by (auto split: sum.splits option.splits)
qed

text \<open>
  Claim C10. The output is the list of the entries of the tree's elements, in order, and
  fails when one of them fails. A node whose type is exactly tuple is a group: its title
  is \<^verbatim>\<open>force_str\<close> of its first element, its children are the serialisation of its
  second element, and further elements are ignored. Every other node, also one that has
  items as a tuple has (an instance of a subclass of tuple), is a leaf: it needs
  \<^verbatim>\<open>force_str\<close> and \<^verbatim>\<open>pk\<close>, and without either it fails. A failing node anywhere
  on the walk makes the whole serialisation fail. A serialised node is a group entry
  exactly when it is a tuple and a leaf entry exactly when it is not.
\<close>

theorem tree_to_json_nodes:
  "tree_to_json force_str selected tree =
     (case iterate tree of
        Inl e \<Rightarrow> Inl e
      | Inr nodes \<Rightarrow>
          (case collect (map (parse_node force_str selected) nodes) of
             Inl e \<Rightarrow> Inl e
           | Inr entries \<Rightarrow> Inr (JArray entries))) \<and>
   parse_node force_str selected (Tuple (label # children # extra)) =
     (case force_str label of
        Inl e \<Rightarrow> Inl e
      | Inr title \<Rightarrow>
          (case tree_to_json force_str selected children of
             Inl e \<Rightarrow> Inl e
           | Inr kids \<Rightarrow> Inr (JObject [(''data'', JString title), (''children'', kids)]))) \<and>
   parse_node force_str selected (Object a pk items) =
     (case force_str (Object a pk items) of
        Inl e \<Rightarrow> Inl e
      | Inr title \<Rightarrow>
          (case pk of
             None \<Rightarrow> Inl AttributeError
           | Some k \<Rightarrow>
               Inr (JObject [(''attr'', JObject [(''obj_id'', JNumber k),
                                                 (''is_selected'', JBool (k \<in> set selected))]),
                             (''data'', JString title)]))) \<and>
   (node \<in> set (walked_tree tree) \<and> parse_node force_str selected node = Inl e \<longrightarrow>
      (\<exists>e'. tree_to_json force_str selected tree = Inl e')) \<and>
   (parse_node force_str selected node = Inr j \<longrightarrow>
      ((\<exists>title kids. j = JObject [(''data'', JString title), (''children'', JArray kids)]) \<longleftrightarrow>
       (\<exists>items. node = Tuple items)) \<and>
      ((\<exists>k title. j = JObject [(''attr'', JObject [(''obj_id'', JNumber k),
                                                    (''is_selected'', JBool (k \<in> set selected))]),
                                (''data'', JString title)]) \<longleftrightarrow>
       (\<exists>a pk items. node = Object a pk items)))"
proof -
  have A: "tree_to_json force_str selected tree =
     (case iterate tree of
        Inl e \<Rightarrow> Inl e
      | Inr nodes \<Rightarrow>
          (case collect (map (parse_node force_str selected) nodes) of
             Inl e \<Rightarrow> Inl e
           | Inr entries \<Rightarrow> Inr (JArray entries)))"
    by (simp add: tree_to_json_def parse_nodes_collect split: sum.splits)
  have B: "parse_node force_str selected (Tuple (label # children # extra)) =
     (case force_str label of
        Inl e \<Rightarrow> Inl e
      | Inr title \<Rightarrow>
          (case tree_to_json force_str selected children of
             Inl e \<Rightarrow> Inl e
           | Inr kids \<Rightarrow> Inr (JObject [(''data'', JString title), (''children'', kids)])))"
    by (simp add: tuple_item_def tree_to_json_def split: sum.splits)
  have C: "parse_node force_str selected (Object a pk items) =
     (case force_str (Object a pk items) of
        Inl e \<Rightarrow> Inl e
      | Inr title \<Rightarrow>
          (case pk of
             None \<Rightarrow> Inl AttributeError
           | Some k \<Rightarrow>
               Inr (JObject [(''attr'', JObject [(''obj_id'', JNumber k),
                                                 (''is_selected'', JBool (k \<in> set selected))]),
                             (''data'', JString title)])))"
    by simp
  have D: "node \<in> set (walked_tree tree) \<and> parse_node force_str selected node = Inl e \<longrightarrow>
      (\<exists>e'. tree_to_json force_str selected tree = Inl e')"
    using walked_fails(1) [of node tree force_str selected e]
    by (auto simp: tree_to_json_def simp del: parse_tree.simps(1) walked_tree.simps(1))
  have E: "parse_node force_str selected node = Inr j \<longrightarrow>
      ((\<exists>title kids. j = JObject [(''data'', JString title), (''children'', JArray kids)]) \<longleftrightarrow>
       (\<exists>items. node = Tuple items)) \<and>
      ((\<exists>k title. j = JObject [(''attr'', JObject [(''obj_id'', JNumber k),
                                                    (''is_selected'', JBool (k \<in> set selected))]),
                                (''data'', JString title)]) \<longleftrightarrow>
       (\<exists>a pk items. node = Object a pk items))"
    by (cases node) (auto split: sum.splits option.splits)
  from A B C D E show ?thesis
    by (intro conjI)
qed

text \<open>
  A group of three elements whose children are a record and an object with the items of
  a pair; and a record without a key two levels down.
\<close>

theorem tree_to_json_nodes_witness:
  "tree_to_json text_of [7]
     (Tuple [Tuple [Object ''Sales'' None None,
                    Tuple [Object ''Bob'' (Some 7) None,
                           Object ''Point'' (Some 4) (Some [Object ''x'' None None, Tuple []])],
                    Object ''more'' None None]]) =
   Inr (JArray
     [JObject [(''data'', JString ''Sales''),
               (''children'', JArray
                 [JObject [(''attr'', JObject [(''obj_id'', JNumber 7), (''is_selected'', JBool True)]),
                           (''data'', JString ''Bob'')],
                  JObject [(''attr'', JObject [(''obj_id'', JNumber 4), (''is_selected'', JBool False)]),
                           (''data'', JString ''Point'')]])]]) \<and>
   parse_node text_of [7]
     (Tuple [Object ''Sales'' None None,
             Tuple [Object ''Bob'' (Some 7) None],
             Object ''more'' None None]) =
   Inr (JObject [(''data'', JString ''Sales''),
                 (''children'', JArray
                   [JObject [(''attr'', JObject [(''obj_id'', JNumber 7), (''is_selected'', JBool True)]),
                             (''data'', JString ''Bob'')]])]) \<and>
   Object ''Ann'' None None \<in>
     set (walked_tree
            (Tuple [Tuple [Object ''Sales'' None None,
                           Tuple [Object ''Bob'' (Some 7) None, Object ''Ann'' None None]]])) \<and>
   parse_node text_of [7] (Object ''Ann'' None None) = Inl AttributeError \<and>
   tree_to_json text_of [7]
     (Tuple [Tuple [Object ''Sales'' None None,
                    Tuple [Object ''Bob'' (Some 7) None, Object ''Ann'' None None]]]) =
   Inl AttributeError"
  using tree_to_json_nodes
          [where force_str = text_of and selected = "[7]"
             and tree = "Tuple [Tuple [Object ''Sales'' None None,
                           Tuple [Object ''Bob'' (Some 7) None, Object ''Ann'' None None]]]"
             and node = "Object ''Ann'' None None" and e = AttributeError
             and j = "JObject []"
             and label = "Object ''Sales'' None None"
             and children = "Tuple [Object ''Bob'' (Some 7) None]"
             and extra = "[Object ''more'' None None]"
             and a = "''Ann''" and pk = None and items = None]
        tree_to_json_nodes
          [where force_str = text_of and selected = "[7]"
             and tree = "Tuple [Tuple [Object ''Sales'' None None,
                    Tuple [Object ''Bob'' (Some 7) None,
                           Object ''Point'' (Some 4) (Some [Object ''x'' None None, Tuple []])],
                    Object ''more'' None None]]"
             and node = "Tuple [Object ''Sales'' None None,
                                Tuple [Object ''Bob'' (Some 7) None],
                                Object ''more'' None None]"
             and e = AttributeError
             and j = "JObject [(''data'', JString ''Sales''),
                 (''children'', JArray
                   [JObject [(''attr'', JObject [(''obj_id'', JNumber 7), (''is_selected'', JBool True)]),
                             (''data'', JString ''Bob'')]])]"
             and label = "Object ''Sales'' None None"
             and children = "Tuple [Object ''Bob'' (Some 7) None,
                           Object ''Point'' (Some 4) (Some [Object ''x'' None None, Tuple []])]"
             and extra = "[Object ''more'' None None]"
             and a = "''Point''" and pk = "Some 4"
             and items = "Some [Object ''x'' None None, Tuple []]"]
  by (simp add: tree_to_json_def tuple_item_def)

text \<open>
  A tuple with fewer than two elements has no label or no children, and the index raises.
  A nested level written as a plain tuple of records, without a label, is read as a group
  whose label is its first record and whose children are its second: iterating over that
  record raises.
\<close>

lemma parse_node_short_tuple:
  "parse_node force_str selected (Tuple []) = Inl IndexError \<and>
   (force_str label = Inr title \<longrightarrow>
      parse_node force_str selected (Tuple [label]) = Inl IndexError)"
  by (simp add: tuple_item_def)

lemma tree_to_json_unlabelled_level:
  "tree_to_json text_of []
     (Tuple [Object ''obj1'' (Some 1) None, Object ''obj2'' (Some 2) None,
             Tuple [Object ''obj3'' (Some 3) None, Object ''obj4'' (Some 4) None,
                    Tuple [Object ''obj3'' (Some 3) None, Object ''obj4'' (Some 4) None]]]) =
   Inl TypeError"
  by (simp add: tree_to_json_def tuple_item_def)

subsection \<open>Echoing the query parameters\<close>









subsection \<open>The admin's media\<close>

text \<open>
  Claim C9. Constructing a filter changes the admin: afterwards both media types of its
  \<^verbatim>\<open>Media\<close> class hold the merged view of the media of the admin, of the base filter
  class and of the instance, added in this order. The tree filter's constructor leaves
  the admin in the same state, whether or not the selection can be read.
\<close>

theorem construction_overwrites_admin_media:
  "snd (FiltrateFilter_init api self_Media pname request params \<lparr>admin_Media = Some m\<rparr>) =
     \<lparr>admin_Media = Some
        \<lparr>css = Some (Media_css api
                  (Media_add api
                     (Media_add api (Media_new api (Some m)) (Media_new api (Some FiltrateFilter_Media)))
                     (Media_new api (Some self_Media)))),
         js = Some (Media_js api
                  (Media_add api
                     (Media_add api (Media_new api (Some m)) (Media_new api (Some FiltrateFilter_Media)))
                     (Media_new api (Some self_Media))))\<rparr>\<rparr> \<and>
   snd (TreeFilter_init api self_Media pname qmode qname request params \<lparr>admin_Media = Some m\<rparr>) =
     snd (FiltrateFilter_init api self_Media pname request params \<lparr>admin_Media = Some m\<rparr>)"
  by (simp add: TreeFilter_init_def FiltrateFilter_init_def add_media_def Let_def
      split: sum.splits option.splits)

text \<open>
  The change stays: a second construction starts from what the first one left. Here a
  tree filter and then a date-range filter are constructed on an admin that declares one
  script.
\<close>

lemma construction_accumulates_example:
  "snd (TreeFilter_init simple_media TreeFilter_Media ''dept'' 1 None [] Map.empty
          \<lparr>admin_Media = Some \<lparr>css = None, js = Some [''admin.js'']\<rparr>\<rparr>) =
     \<lparr>admin_Media = Some
        \<lparr>css = Some [(''all'', [''filtrate/css/filtrate.css''])],
         js = Some [''admin.js'', ''filtrate/js/filtrate.js'', ''filtrate/js/filtertree.js'']\<rparr>\<rparr> \<and>
   snd (FiltrateFilter_init simple_media (DateRangeFilter_Media False) ''created'' [] Map.empty
          (snd (TreeFilter_init simple_media TreeFilter_Media ''dept'' 1 None [] Map.empty
                  \<lparr>admin_Media = Some \<lparr>css = None, js = Some [''admin.js'']\<rparr>\<rparr>))) =
     \<lparr>admin_Media = Some
        \<lparr>css = Some [(''all'', [''filtrate/css/filtrate.css''])],
         js = Some [''admin.js'', ''filtrate/js/filtrate.js'', ''filtrate/js/filtertree.js'',
                    ''filtrate/js/daterangefilter.js'']\<rparr>\<rparr>"
  by (simp add: TreeFilter_init_def FiltrateFilter_init_def add_media_def Let_def value_def
      simple_media_def FiltrateFilter_Media_def TreeFilter_Media_def DateRangeFilter_Media_def)

text \<open>An admin without \<^verbatim>\<open>Media\<close>: the constructor raises and nothing changes.\<close>

lemma construction_without_Media:
  "FiltrateFilter_init api self_Media pname request params \<lparr>admin_Media = None\<rparr> =
     (Inl AttributeError, \<lparr>admin_Media = None\<rparr>)"
  by (simp add: FiltrateFilter_init_def add_media_def Let_def)

subsection \<open>The date range\<close>

text \<open>
  Claim C6, as stated, fails. The date-range filter has the \<^verbatim>\<open>queryset\<close> of the base
  filter, which reads the value under \<open>parameter_name\<close> only. With the single
  parameter \<^verbatim>\<open>created__gte=2020-01-01\<close> it returns the incoming queryset, the record
  of 2019 included, and not a queryset filtered by the lower bound.
\<close>

theorem DateRangeFilter_from_only_counterexample:
  "fst (FiltrateFilter_init simple_media (DateRangeFilter_Media False) ''created''
          [(''created__gte'', ''2020-01-01'')] [''created__gte'' \<mapsto> ''2020-01-01'']
          \<lparr>admin_Media = Some \<lparr>css = None, js = None\<rparr>\<rparr>) =
     Inr \<lparr>parameter_name = ''created'', request_GET = [(''created__gte'', ''2020-01-01'')],
          used_parameters = Map.empty\<rparr> \<and>
   FiltrateFilter_queryset
     \<lparr>parameter_name = ''created'', request_GET = [(''created__gte'', ''2020-01-01'')],
      used_parameters = Map.empty\<rparr>
     (Records [''2019-06-30'', ''2021-03-01'']) =
     Inr (Records [''2019-06-30'', ''2021-03-01'']) \<and>
   FiltrateFilter_queryset
     \<lparr>parameter_name = ''created'', request_GET = [(''created__gte'', ''2020-01-01'')],
      used_parameters = Map.empty\<rparr>
     (Records [''2019-06-30'', ''2021-03-01'']) \<noteq>
     Inr (Filter_call (Records [''2019-06-30'', ''2021-03-01''])
            [(''created__gte'', Text ''2020-01-01'')])"
  by (simp add: FiltrateFilter_init_def add_media_def Let_def FiltrateFilter_queryset_def value_def)

text \<open>
  Claim C6, amended. Whenever the parameters hold no value under the filter's own
  \<open>parameter_name\<close>, the queryset translation of the date-range filter returns the
  incoming queryset as it is, whether the "from" parameter, the "to" parameter, both or
  neither are given: it builds no bound itself. The two values only fill the form: the
  form data holds the display entry of "from" when a "from" value that is not empty is
  given, followed by the display entry of "to" when such a "to" value is given.
\<close>

theorem DateRangeFilter_queryset_identity:
  assumes "params pname = None"
    and "admin_Media admin = Some m"
  shows "\<exists>f a. FiltrateFilter_init api (DateRangeFilter_Media include_jquery) pname request params admin =
                 (Inr f, a) \<and>
               FiltrateFilter_queryset f qs = Inr qs \<and>
               form_data (get_form f field_name) =
                 (case QueryDict_get request (pname @ ''__gte'') of
                    None \<Rightarrow> []
                  | Some d \<Rightarrow> if d = [] then [] else [(pname @ ''__gte__alt'', d)]) @
                 (case QueryDict_get request (pname @ ''__lte'') of
                    None \<Rightarrow> []
                  | Some d \<Rightarrow> if d = [] then [] else [(pname @ ''__lte__alt'', d)])"
proof -
  from FiltrateFilter_init_declared [OF assms(2), of api "DateRangeFilter_Media include_jquery" pname request params]
  obtain a where a: "FiltrateFilter_init api (DateRangeFilter_Media include_jquery) pname request params admin =
      (Inr \<lparr>parameter_name = pname, request_GET = request, used_parameters = Map.empty\<rparr>, a)"
    using assms(1) by auto
  show ?thesis
    using a
    by (simp add: FiltrateFilter_queryset_def value_def get_form_def Let_def add_data_def
        split: option.splits)
qed

text \<open>Only "from"; both; neither.\<close>

theorem DateRangeFilter_queryset_identity_witness:
  "[''created__gte'' \<mapsto> ''2020-01-01''] ''created'' = None \<and>
   admin_Media \<lparr>admin_Media = Some \<lparr>css = None, js = None\<rparr>\<rparr> = Some \<lparr>css = None, js = None\<rparr> \<and>
   (\<exists>f a. FiltrateFilter_init simple_media (DateRangeFilter_Media False) ''created''
             [(''created__gte'', ''2020-01-01'')] [''created__gte'' \<mapsto> ''2020-01-01'']
             \<lparr>admin_Media = Some \<lparr>css = None, js = None\<rparr>\<rparr> = (Inr f, a) \<and>
          FiltrateFilter_queryset f (Records [''2019-06-30'', ''2021-03-01'']) =
            Inr (Records [''2019-06-30'', ''2021-03-01'']) \<and>
          form_data (get_form f ''created'') = [(''created__gte__alt'', ''2020-01-01'')]) \<and>
   (\<exists>f a. FiltrateFilter_init simple_media (DateRangeFilter_Media False) ''created''
             [(''created__gte'', ''2020-01-01''), (''created__lte'', ''2020-12-31'')]
             [''created__gte'' \<mapsto> ''2020-01-01'', ''created__lte'' \<mapsto> ''2020-12-31'']
             \<lparr>admin_Media = Some \<lparr>css = None, js = None\<rparr>\<rparr> = (Inr f, a) \<and>
          FiltrateFilter_queryset f (Records [''2019-06-30'', ''2021-03-01'']) =
            Inr (Records [''2019-06-30'', ''2021-03-01'']) \<and>
          form_data (get_form f ''created'') =
            [(''created__gte__alt'', ''2020-01-01''), (''created__lte__alt'', ''2020-12-31'')]) \<and>
   (\<exists>f a. FiltrateFilter_init simple_media (DateRangeFilter_Media False) ''created''
             [] Map.empty \<lparr>admin_Media = Some \<lparr>css = None, js = None\<rparr>\<rparr> = (Inr f, a) \<and>
          FiltrateFilter_queryset f (Records [''2019-06-30'', ''2021-03-01'']) =
            Inr (Records [''2019-06-30'', ''2021-03-01'']) \<and>
          form_data (get_form f ''created'') = [])"
  using DateRangeFilter_queryset_identity
          [of "[''created__gte'' \<mapsto> ''2020-01-01'']" "''created''"
              "\<lparr>admin_Media = Some \<lparr>css = None, js = None\<rparr>\<rparr>" "\<lparr>css = None, js = None\<rparr>"
              simple_media False "[(''created__gte'', ''2020-01-01'')]"
              "Records [''2019-06-30'', ''2021-03-01'']" "''created''"]
        DateRangeFilter_queryset_identity
          [of "[''created__gte'' \<mapsto> ''2020-01-01'', ''created__lte'' \<mapsto> ''2020-12-31'']" "''created''"
              "\<lparr>admin_Media = Some \<lparr>css = None, js = None\<rparr>\<rparr>" "\<lparr>css = None, js = None\<rparr>"
              simple_media False "[(''created__gte'', ''2020-01-01''), (''created__lte'', ''2020-12-31'')]"
              "Records [''2019-06-30'', ''2021-03-01'']" "''created''"]
        DateRangeFilter_queryset_identity
          [of Map.empty "''created''"
              "\<lparr>admin_Media = Some \<lparr>css = None, js = None\<rparr>\<rparr>" "\<lparr>css = None, js = None\<rparr>"
              simple_media False "[]"
              "Records [''2019-06-30'', ''2021-03-01'']" "''created''"]
  by (simp add: QueryDict_get_def QueryDict_getitem_def)

end
